theory Spec2Isabelle
  imports Complex_Main "HOL-Library.AList" "HOL-Library.List_Lexorder" "HOL-Library.Char_ord"
begin

section \<open>Data model (core/types.ts, the experiment interfaces of unnamed/part_007, store/labStore.ts)\<close>

text \<open>
  JavaScript numbers are modelled as exact reals (volumes, temperatures, times) or as
  integers (counters, millisecond durations): rounding of IEEE doubles is not modelled.
  A JavaScript \<open>Map\<close> is an association list in insertion order: \<open>get\<close> is
  \<open>map_of\<close> and \<open>set\<close> is \<open>AList.update\<close> (an existing key keeps its place, a new
  key goes to the end). Strings are byte lists; the few non-ASCII characters of the
  source's literals are written as their UTF-8 bytes. Calls to the sound manager and
  to the console are left out: they touch nothing of the store.
\<close>

datatype chemicalType = Acid | Base | Neutral | Metal | Salt | Water | Indicator

record chemical =
  chem_id :: string
  chem_name :: string
  formula :: "string option"
  color :: string
  chem_type :: chemicalType
  concentration :: "real option"

record vesselContents =
  chemical :: chemical
  volume :: real

datatype vesselType = Beaker | Flask | Test_tube | Graduated_cylinder | Tongs

record labVessel =
  vessel_id :: string
  vessel_name :: "string option"
  vessel_type :: vesselType
  capacity :: real
  currentVolume :: real
  tiltAngle :: real
  temperature :: real
  contents :: "vesselContents list"
  position :: "real \<times> real \<times> real"

datatype reactionEffect =
  Bubbles | Smoke | Precipitate | Color_change | Heat | Explosion | Steam | Boiling

record reactants =
  chemicalType1 :: chemicalType
  chemicalType2 :: chemicalType

record reaction =
  reaction_id :: string
  reaction_name :: string
  description :: string
  reactants :: reactants
  products :: "chemical list"
  resultColor :: string
  effects :: "reactionEffect list"
  isExothermic :: "bool option"

record reactionResult =
  occurred :: bool
  rr_reaction :: "reaction option"
  rr_products :: "chemical list option"
  message :: string

text \<open>An effect id is the string \<open>effect_n\<close>; the model keeps the number \<open>n\<close>.\<close>

record activeEffect =
  effect_id :: int
  effect_type :: reactionEffect
  effect_vesselId :: string
  startTime :: int
  duration :: int

record reactionNotification =
  n_reaction :: reaction
  n_products :: "chemical list"
  n_vesselId :: string
  timestamp :: int

record experimentChemical =
  ec_id :: string
  ec_name :: string
  ec_color :: string

text \<open>
  The fields \<open>visual\<close> and \<open>resultType\<close> of an outcome are read by the rendering layer
  only and are left out. The outcome table \<open>reactions\<close> is an object literal: an
  association list in key order (\<open>Object.keys\<close>), looked up with \<open>map_of\<close>.
\<close>

record experimentReaction =
  observation :: string
  explanation :: string
  success :: bool

record labExperiment =
  exp_id :: string
  exp_title :: string
  exp_chapter :: string
  classLevel :: int
  aim :: string
  apparatus :: "string list"
  exp_chemicals :: "experimentChemical list"
  reactions :: "(string \<times> experimentReaction) list"
  conclusion :: string
  procedureSteps :: "string list option"

datatype experimentMode = Sandbox | Guided

text \<open>
  Callbacks handed to \<open>setTimeout\<close> by the store, with their delay in milliseconds.
\<close>

datatype callback =
  CbApplyReaction string reaction
  | CbAutoEvaporate
  | CbStirDone
  | CbShowCompletionPopup

text \<open>
  The store. The last five fields are not declared in the \<open>LabStore\<close> interface:
  \<open>experimentRunning\<close> and \<open>timer\<close> are keys that \<open>resetExperiment\<close> adds to the state
  object (\<open>None\<close> while absent), \<open>effectIdCounter\<close> is the module-level counter,
  \<open>pendingTimers\<close> collects the \<open>setTimeout\<close> calls made so far, and
  \<open>storedCompleted\<close> is the \<open>completedExperiments\<close> item of \<open>localStorage\<close>.
\<close>

record labStore =
  vessels :: "(string \<times> labVessel) list"
  selectedVesselId :: "string option"
  isPouringActive :: bool
  pouringSourceId :: "string option"
  pouringTargetId :: "string option"
  pendingFiltrationVolume :: real
  isAutoPouring :: bool
  activeEffects :: "activeEffect list"
  reactionNotification :: "reactionNotification option"
  safetyWarning :: "(string \<times> string) option"
  bunsenBurnerOn :: bool
  heatingVesselId :: "string option"
  experimentMode :: experimentMode
  showLab :: bool
  currentExperiment :: "labExperiment option"
  placedApparatus :: "string list"
  addedChemicals :: "string list"
  experimentActions :: "string list"
  currentObservation :: string
  currentExplanation :: string
  showExplanation :: bool
  experimentHeatLevel :: int
  experimentStirCount :: int
  isStirring :: bool
  completedExperiments :: "string list"
  saltTested :: bool
  sandTested :: bool
  resetAfterSaltTest :: bool
  showResetPrompt :: bool
  resetPromptMessage :: string
  showCompletionPopup :: bool
  dishCracked :: bool
  iceTested :: bool
  paperTested :: bool
  magnesiumTested :: bool
  neutralizationAnimating :: bool
  neutralizationDropCount :: int
  neutralizationComplete :: bool
  experimentRunning :: "bool option"
  timer :: "int option"
  effectIdCounter :: int
  pendingTimers :: "(int \<times> callback) list"
  storedCompleted :: "string list option"


section \<open>Reaction rule base and matcher (ReactionManager, unnamed/part_007)\<close>

text \<open>The chemicals that the rules mention, the rules, and the matcher over a rule list.\<close>

definition sub2 :: string where
  "sub2 = [CHR 0xE2, CHR 0x82, CHR 0x82]"

definition sub4 :: string where
  "sub4 = [CHR 0xE2, CHR 0x82, CHR 0x84]"

definition CHEMICALS_water :: chemical where
  "CHEMICALS_water = \<lparr>chem_id = ''water'', chem_name = ''Water'',
     formula = Some (''H'' @ sub2 @ ''O''), color = ''#4fc3f7'', chem_type = Water,
     concentration = None\<rparr>"

definition CHEMICALS_hydrochloric_acid :: chemical where
  "CHEMICALS_hydrochloric_acid = \<lparr>chem_id = ''hydrochloric_acid'',
     chem_name = ''Hydrochloric Acid'', formula = Some ''HCl'', color = ''#c8e6c9'',
     chem_type = Acid, concentration = Some 1\<rparr>"

definition CHEMICALS_sodium_hydroxide :: chemical where
  "CHEMICALS_sodium_hydroxide = \<lparr>chem_id = ''sodium_hydroxide'',
     chem_name = ''Sodium Hydroxide'', formula = Some ''NaOH'', color = ''#e1bee7'',
     chem_type = Base, concentration = Some 1\<rparr>"

definition CHEMICALS_zinc :: chemical where
  "CHEMICALS_zinc = \<lparr>chem_id = ''zinc'', chem_name = ''Zinc Metal'',
     formula = Some ''Zn'', color = ''#b0bec5'', chem_type = Metal, concentration = None\<rparr>"

definition CHEMICALS_sodium_chloride :: chemical where
  "CHEMICALS_sodium_chloride = \<lparr>chem_id = ''sodium_chloride'',
     chem_name = ''Sodium Chloride (Salt)'', formula = Some ''NaCl'', color = ''#ffffff'',
     chem_type = Salt, concentration = None\<rparr>"

definition CHEMICALS_barium_sulfate :: chemical where
  "CHEMICALS_barium_sulfate = \<lparr>chem_id = ''barium_sulfate'',
     chem_name = ''Barium Sulfate'', formula = Some (''BaSO'' @ sub4), color = ''#ffffff'',
     chem_type = Salt, concentration = None\<rparr>"

definition hydrogen_gas :: chemical where
  "hydrogen_gas = \<lparr>chem_id = ''hydrogen_gas'', chem_name = ''Hydrogen Gas'',
     formula = Some (''H'' @ sub2), color = ''transparent'', chem_type = Neutral,
     concentration = None\<rparr>"

definition zinc_chloride :: chemical where
  "zinc_chloride = \<lparr>chem_id = ''zinc_chloride'', chem_name = ''Zinc Chloride'',
     formula = Some (''ZnCl'' @ sub2), color = ''#f5f5f5'', chem_type = Salt,
     concentration = None\<rparr>"

definition acid_base_neutralization :: reaction where
  "acid_base_neutralization = \<lparr>reaction_id = ''acid_base_neutralization'',
     reaction_name = ''Acid-Base Neutralization'',
     description = ''When an acid reacts with a base, they neutralize each other to form water and a salt.'',
     reactants = \<lparr>chemicalType1 = Acid, chemicalType2 = Base\<rparr>,
     products = [CHEMICALS_water, CHEMICALS_sodium_chloride],
     resultColor = ''#e0f7fa'', effects = [Color_change, Heat], isExothermic = Some True\<rparr>"

definition acid_metal_reaction :: reaction where
  "acid_metal_reaction = \<lparr>reaction_id = ''acid_metal_reaction'',
     reaction_name = ''Acid-Metal Reaction'',
     description = ''When an acid reacts with a reactive metal, it produces hydrogen gas and a salt.'',
     reactants = \<lparr>chemicalType1 = Acid, chemicalType2 = Metal\<rparr>,
     products = [hydrogen_gas, zinc_chloride],
     resultColor = ''#f5f5f5'', effects = [Bubbles, Heat], isExothermic = Some True\<rparr>"

definition indicator_base :: reaction where
  "indicator_base = \<lparr>reaction_id = ''indicator_base'',
     reaction_name = ''Indicator Color Change'',
     description = ''Phenolphthalein turns pink in basic solutions!'',
     reactants = \<lparr>chemicalType1 = Indicator, chemicalType2 = Base\<rparr>,
     products = [CHEMICALS_sodium_hydroxide],
     resultColor = ''#ff66b2'', effects = [Color_change], isExothermic = Some False\<rparr>"

definition barium_sulfate_precipitation :: reaction where
  "barium_sulfate_precipitation = \<lparr>reaction_id = ''barium_sulfate_precipitation'',
     reaction_name = ''Precipitation Reaction'',
     description = ''Barium chloride reacts with sulfuric acid to form white barium sulfate precipitate!'',
     reactants = \<lparr>chemicalType1 = Salt, chemicalType2 = Acid\<rparr>,
     products = [CHEMICALS_barium_sulfate],
     resultColor = ''#ffffff'', effects = [Precipitate], isExothermic = Some False\<rparr>"

definition REACTIONS :: "reaction list" where
  "REACTIONS = [acid_base_neutralization, acid_metal_reaction, indicator_base,
     barium_sulfate_precipitation]"

text \<open>\<open>findReaction\<close>: the first rule whose category pair matches in either order.\<close>

definition findReaction :: "reaction list \<Rightarrow> chemicalType \<Rightarrow> chemicalType \<Rightarrow> reaction option" where
  "findReaction rs type1 type2 =
     List.find (\<lambda>r. (chemicalType1 (reactants r) = type1 \<and> chemicalType2 (reactants r) = type2)
                   \<or> (chemicalType1 (reactants r) = type2 \<and> chemicalType2 (reactants r) = type1)) rs"

text \<open>
  The two nested loops of \<open>checkReaction\<close>: \<open>innerLoop\<close> runs \<open>j\<close> over the entries
  after entry \<open>i\<close>, \<open>outerLoop\<close> runs \<open>i\<close>; the first rule found is returned.
\<close>

fun innerLoop :: "reaction list \<Rightarrow> vesselContents \<Rightarrow> vesselContents list \<Rightarrow> reaction option" where
  "innerLoop rs c [] = None"
| "innerLoop rs c (d # ds) =
     (case findReaction rs (chem_type (chemical c)) (chem_type (chemical d)) of
        Some r \<Rightarrow> Some r
      | None \<Rightarrow> innerLoop rs c ds)"

fun outerLoop :: "reaction list \<Rightarrow> vesselContents list \<Rightarrow> reaction option" where
  "outerLoop rs [] = None"
| "outerLoop rs (c # cs) =
     (case innerLoop rs c cs of Some r \<Rightarrow> Some r | None \<Rightarrow> outerLoop rs cs)"

definition checkReaction :: "reaction list \<Rightarrow> vesselContents list \<Rightarrow> reactionResult" where
  "checkReaction rs cs =
     (if length cs < 2
      then \<lparr>occurred = False, rr_reaction = None, rr_products = None,
             message = ''Not enough chemicals to react.''\<rparr>
      else (case outerLoop rs cs of
              Some r \<Rightarrow> \<lparr>occurred = True, rr_reaction = Some r, rr_products = Some (products r),
                          message = ''Reaction! '' @ reaction_name r @ '': '' @ description r\<rparr>
            | None \<Rightarrow> \<lparr>occurred = False, rr_reaction = None, rr_products = None,
                        message = ''No reaction occurred.''\<rparr>))"

section \<open>Vessel operations (store/labStore.ts)\<close>

text \<open>\<open>Array.prototype.findIndex\<close>, with \<open>None\<close> for \<open>-1\<close>.\<close>

fun findIndex :: "('a \<Rightarrow> bool) \<Rightarrow> 'a list \<Rightarrow> nat option" where
  "findIndex p [] = None"
| "findIndex p (x # xs) =
     (if p x then Some 0 else map_option Suc (findIndex p xs))"

text \<open>
  After a fill or a transfer the store asks the matcher and, on a hit, schedules
  \<open>applyReaction\<close> 100 ms later. In \<open>fillVessel\<close> the \<open>map\<close> that rewrites the
  entry at \<open>existingContentIndex\<close> is a list update at that index.
\<close>

definition scheduleReaction :: "string \<Rightarrow> reactionResult \<Rightarrow> labStore \<Rightarrow> labStore" where
  "scheduleReaction vesselId rr state =
     (case rr_reaction rr of
        Some r \<Rightarrow> if occurred rr
                  then state\<lparr>pendingTimers := pendingTimers state @ [(100, CbApplyReaction vesselId r)]\<rparr>
                  else state
      | None \<Rightarrow> state)"

definition fillVessel :: "string \<Rightarrow> chemical \<Rightarrow> real \<Rightarrow> labStore \<Rightarrow> labStore" where
  "fillVessel vesselId chem vol state =
     (case map_of (vessels state) vesselId of
        None \<Rightarrow> state
      | Some vessel \<Rightarrow>
          let newVolume = min (currentVolume vessel + vol) (capacity vessel);
              actualVolumeAdded = newVolume - currentVolume vessel
          in if actualVolumeAdded \<le> 0 then state
             else
               let newContents =
                     (case findIndex (\<lambda>c. chem_id (chemical c) = chem_id chem) (contents vessel) of
                        Some i \<Rightarrow> (contents vessel)
                                    [i := (contents vessel ! i)
                                       \<lparr>volume := volume (contents vessel ! i) + actualVolumeAdded\<rparr>]
                      | None \<Rightarrow> contents vessel @ [\<lparr>chemical = chem, volume = actualVolumeAdded\<rparr>]);
                   newVessels = AList.update vesselId
                     (vessel\<lparr>currentVolume := newVolume, contents := newContents\<rparr>) (vessels state)
               in scheduleReaction vesselId (checkReaction REACTIONS newContents)
                    (state\<lparr>vessels := newVessels\<rparr>))"

definition clearVessel :: "string \<Rightarrow> labStore \<Rightarrow> labStore" where
  "clearVessel vesselId state =
     (case map_of (vessels state) vesselId of
        None \<Rightarrow> state
      | Some vessel \<Rightarrow>
          state\<lparr>vessels := AList.update vesselId
            (vessel\<lparr>currentVolume := 0, contents := [], tiltAngle := 0\<rparr>) (vessels state)\<rparr>)"

text \<open>
  The first loop of \<open>transferLiquid\<close>: one step per source entry, pushing the residue
  onto \<open>newSourceContents\<close> and the moved part onto \<open>transferredContents\<close>, each only
  when it exceeds 0.01.
\<close>

definition splitEntry ::
  "real \<Rightarrow> vesselContents \<Rightarrow> vesselContents list \<times> vesselContents list
     \<Rightarrow> vesselContents list \<times> vesselContents list" where
  "splitEntry transferRatio content acc =
     (let transferAmount = volume content * transferRatio;
          remainingAmount = volume content - transferAmount
      in ((if remainingAmount > 0.01
           then fst acc @ [content\<lparr>volume := remainingAmount\<rparr>] else fst acc),
          (if transferAmount > 0.01
           then snd acc @ [\<lparr>chemical = chemical content, volume = transferAmount\<rparr>]
           else snd acc)))"

text \<open>
  The second loop: one step per transferred entry, merged by chemical id. In
  \<open>transferLiquid\<close> the reaction check runs on the merged target contents, before the
  collection beaker is put back; \<open>pendingFiltrationVolume || 0\<close> is the number itself.
\<close>

definition mergeEntry :: "vesselContents \<Rightarrow> vesselContents list \<Rightarrow> vesselContents list" where
  "mergeEntry transferred newTargetContents =
     (case findIndex (\<lambda>c. chem_id (chemical c) = chem_id (chemical transferred))
             newTargetContents of
        Some i \<Rightarrow> newTargetContents
                    [i := (newTargetContents ! i)
                       \<lparr>volume := volume (newTargetContents ! i) + volume transferred\<rparr>]
      | None \<Rightarrow> newTargetContents @ [transferred])"

definition actualTransferOf :: "labVessel \<Rightarrow> labVessel \<Rightarrow> real \<Rightarrow> real" where
  "actualTransferOf source target vol =
     (let availableVolume = currentVolume source;
          targetSpace = capacity target - currentVolume target
      in min vol (min availableVolume targetSpace))"

definition transferLiquid :: "string \<Rightarrow> string \<Rightarrow> real \<Rightarrow> labStore \<Rightarrow> labStore" where
  "transferLiquid sourceId targetId vol state =
     (case map_of (vessels state) sourceId of
        None \<Rightarrow> state
      | Some source \<Rightarrow>
         (case map_of (vessels state) targetId of
            None \<Rightarrow> state
          | Some target \<Rightarrow>
              if currentVolume source \<le> 0 then state
              else
                let actualTransfer = actualTransferOf source target vol
                in if actualTransfer \<le> 0 then state
                   else
                     let transferRatio = actualTransfer / currentVolume source;
                         split = fold (splitEntry transferRatio) (contents source) ([], []);
                         newSourceContents = fst split;
                         transferredContents = snd split;
                         newTargetContents = fold mergeEntry transferredContents (contents target);
                         newVessels0 =
                           AList.update targetId
                             (target\<lparr>currentVolume := currentVolume target + actualTransfer,
                                     contents := newTargetContents\<rparr>)
                             (AList.update sourceId
                                (source\<lparr>currentVolume := currentVolume source - actualTransfer,
                                        contents := newSourceContents\<rparr>)
                                (vessels state));
                         reactionResult = checkReaction REACTIONS newTargetContents;
                         pendingVolume = pendingFiltrationVolume state;
                         diverted = (targetId = ''collection_beaker'');
                         newExperimentActions =
                           (if diverted \<and> actualTransfer > 0 \<and> ''pour'' \<notin> set (experimentActions state)
                            then experimentActions state @ [''pour'']
                            else experimentActions state);
                         newVessels =
                           (if diverted then AList.update targetId target newVessels0
                            else newVessels0)
                     in (scheduleReaction targetId reactionResult state)
                          \<lparr>vessels := newVessels,
                           experimentActions := newExperimentActions,
                           pendingFiltrationVolume :=
                             (if diverted then pendingVolume + actualTransfer else pendingVolume)\<rparr>))"

definition addFiltrate :: "real \<Rightarrow> labStore \<Rightarrow> labStore" where
  "addFiltrate vol state =
     (case map_of (vessels state) ''collection_beaker'' of
        None \<Rightarrow> state
      | Some beaker \<Rightarrow>
          if pendingFiltrationVolume state \<le> 0 then state
          else
            let finalVolume = min vol (pendingFiltrationVolume state)
            in if finalVolume \<le> 0 then state
               else
                 let clearWater = \<lparr>chem_id = ''water'', chem_name = ''Water'', formula = None,
                                    color = ''#c8e0ff'', chem_type = Water, concentration = None\<rparr>;
                     newContents =
                       (case List.find (\<lambda>c. chem_id (chemical c) = ''water'') (contents beaker) of
                          Some currentContent \<Rightarrow>
                            map (\<lambda>c. if chem_id (chemical c) = ''water''
                                     then c\<lparr>volume := volume c + finalVolume\<rparr> else c)
                              (contents beaker)
                        | None \<Rightarrow> contents beaker @ [\<lparr>chemical = clearWater, volume = finalVolume\<rparr>])
                 in state\<lparr>vessels := AList.update ''collection_beaker''
                             (beaker\<lparr>currentVolume := currentVolume beaker + finalVolume,
                                     contents := newContents\<rparr>) (vessels state),
                           pendingFiltrationVolume := pendingFiltrationVolume state - finalVolume\<rparr>)"

text \<open>
  \<open>applyReaction\<close>; \<open>now\<close> is the value of \<open>Date.now()\<close>, and the k-th effect takes the
  id \<open>effectIdCounter + k\<close> (the counter is pre-incremented per effect).
\<close>

definition applyReaction :: "int \<Rightarrow> string \<Rightarrow> reaction \<Rightarrow> labStore \<Rightarrow> labStore" where
  "applyReaction now vesselId reaction state =
     (case map_of (vessels state) vesselId of
        None \<Rightarrow> state
      | Some vessel \<Rightarrow>
          let newContents =
                map (\<lambda>product. \<lparr>chemical = product,
                                 volume = currentVolume vessel / real (length (products reaction))\<rparr>)
                  (products reaction);
              newVessels = AList.update vesselId (vessel\<lparr>contents := newContents\<rparr>) (vessels state);
              newEffects =
                map (\<lambda>(k, effectType).
                       \<lparr>effect_id = effectIdCounter state + int k + 1,
                        effect_type = effectType,
                        effect_vesselId = vesselId,
                        startTime = now,
                        duration = (if effectType = Bubbles then 4000 else 3000)\<rparr>)
                  (enumerate 0 (effects reaction));
              notification = \<lparr>n_reaction = reaction, n_products = products reaction,
                               n_vesselId = vesselId, timestamp = now\<rparr>
          in state\<lparr>vessels := newVessels,
                    activeEffects := activeEffects state @ newEffects,
                    reactionNotification := Some notification,
                    effectIdCounter := effectIdCounter state + int (length (effects reaction))\<rparr>)"

definition updateVesselTemperature :: "string \<Rightarrow> real \<Rightarrow> labStore \<Rightarrow> labStore" where
  "updateVesselTemperature vesselId temp state =
     (case map_of (vessels state) vesselId of
        None \<Rightarrow> state
      | Some vessel \<Rightarrow>
          state\<lparr>vessels := AList.update vesselId (vessel\<lparr>temperature := temp\<rparr>) (vessels state)\<rparr>)"


definition getVessel :: "labStore \<Rightarrow> string \<Rightarrow> labVessel option" where
  "getVessel state vid = map_of (vessels state) vid"

definition collectionBeaker :: labVessel where
  "collectionBeaker = \<lparr>vessel_id = ''collection_beaker'', vessel_name = Some ''Collection Beaker'',
     vessel_type = Beaker, capacity = 250, currentVolume = 0, tiltAngle = 0, temperature = 25,
     contents = [], position = (3.5, 0, 0)\<rparr>"

text \<open>\<open>addVessel\<close>; a missing or empty \<open>name\<close> is falsy.\<close>

definition addVessel :: "labVessel \<Rightarrow> labStore \<Rightarrow> labStore" where
  "addVessel vessel state =
     (let newVessels0 = AList.update (vessel_id vessel) vessel (vessels state)
      in if map_option exp_id (currentExperiment state) = Some ''filtration''
            \<and> vessel_type vessel = Beaker
         then
           let newVessels1 =
                 (case map_of newVessels0 (vessel_id vessel) of
                    Some sourceVessel \<Rightarrow>
                      if vessel_name sourceVessel = None \<or> vessel_name sourceVessel = Some []
                      then AList.update (vessel_id vessel)
                             (sourceVessel\<lparr>vessel_name := Some ''Muddy Water Beaker''\<rparr>) newVessels0
                      else newVessels0
                  | None \<Rightarrow> newVessels0);
               newVessels2 =
                 (if map_of newVessels1 ''collection_beaker'' = None
                  then AList.update ''collection_beaker'' collectionBeaker newVessels1
                  else newVessels1);
               newPlacedApparatus =
                 (if ''beaker'' \<in> set (placedApparatus state) then placedApparatus state
                  else placedApparatus state @ [''beaker''])
           in state\<lparr>vessels := newVessels2, placedApparatus := newPlacedApparatus\<rparr>
         else state\<lparr>vessels := newVessels0\<rparr>)"

definition emptyVessel :: "string \<Rightarrow> vesselType \<Rightarrow> real \<Rightarrow> real \<times> real \<times> real \<Rightarrow> labVessel" where
  "emptyVessel vid ty cap pos = \<lparr>vessel_id = vid, vessel_name = None, vessel_type = ty,
     capacity = cap, currentVolume = 0, tiltAngle = 0, temperature = 25, contents = [],
     position = pos\<rparr>"

text \<open>
  The initial state of the store; \<open>stored\<close> is what \<open>localStorage\<close> holds under
  \<open>completedExperiments\<close> at start-up.
\<close>

definition initialStore :: "string list option \<Rightarrow> labStore" where
  "initialStore stored = \<lparr>
     vessels = [
       (''beaker_1'', emptyVessel ''beaker_1'' Beaker 500 (-1.2, 0, 0)),
       (''beaker_2'', emptyVessel ''beaker_2'' Beaker 500 (1.2, 0, 0)),
       (''tube_1'', emptyVessel ''tube_1'' Test_tube 50 (-2.5, 0, -1)),
       (''tube_2'', emptyVessel ''tube_2'' Test_tube 50 (-2.1, 0, -1)),
       (''tube_3'', emptyVessel ''tube_3'' Test_tube 50 (-1.7, 0, -1)),
       (''tube_4'', emptyVessel ''tube_4'' Test_tube 50 (-1.3, 0, -1)),
       (''flask_1'', emptyVessel ''flask_1'' Flask 250 (2.8, 0, 0.5))],
     selectedVesselId = Some ''beaker_1'',
     isPouringActive = False,
     pouringSourceId = None,
     pouringTargetId = None,
     pendingFiltrationVolume = 0,
     isAutoPouring = False,
     activeEffects = [],
     reactionNotification = None,
     safetyWarning = None,
     bunsenBurnerOn = False,
     heatingVesselId = None,
     experimentMode = Sandbox,
     showLab = False,
     currentExperiment = None,
     placedApparatus = [],
     addedChemicals = [],
     experimentActions = [],
     currentObservation = ''Welcome to the Virtual Chemistry Lab! Select an experiment to begin.'',
     currentExplanation = [],
     showExplanation = False,
     experimentHeatLevel = 0,
     experimentStirCount = 0,
     isStirring = False,
     completedExperiments = (case stored of None \<Rightarrow> [] | Some ids \<Rightarrow> ids),
     saltTested = False,
     sandTested = False,
     resetAfterSaltTest = False,
     showResetPrompt = False,
     resetPromptMessage = [],
     showCompletionPopup = False,
     dishCracked = False,
     iceTested = False,
     paperTested = False,
     magnesiumTested = False,
     neutralizationAnimating = False,
     neutralizationDropCount = 0,
     neutralizationComplete = False,
     experimentRunning = None,
     timer = None,
     effectIdCounter = 0,
     pendingTimers = [],
     storedCompleted = stored\<rparr>"

section \<open>Experiment engine (store/labStore.ts)\<close>

subsection \<open>String helpers\<close>

text \<open>\<open>Array.prototype.join('+')\<close>.\<close>

fun joinPlus :: "string list \<Rightarrow> string" where
  "joinPlus [] = []"
| "joinPlus [x] = x"
| "joinPlus (x # y # ys) = x @ ''+'' @ joinPlus (y # ys)"

text \<open>\<open>String.prototype.split('+')\<close>: the empty string splits into one empty part.\<close>

fun splitPlus :: "string \<Rightarrow> string list" where
  "splitPlus [] = [[]]"
| "splitPlus (c # cs) =
     (if c = CHR ''+'' then [] # splitPlus cs
      else (case splitPlus cs of
              [] \<Rightarrow> [[c]]
            | p # ps \<Rightarrow> (c # p) # ps))"

text \<open>\<open>String.prototype.includes\<close>: the pattern occurs as a substring.\<close>

fun startsWith :: "string \<Rightarrow> string \<Rightarrow> bool" where
  "startsWith s [] = True"
| "startsWith [] (p # ps) = False"
| "startsWith (c # cs) (p # ps) = (c = p \<and> startsWith cs ps)"

fun includesStr :: "string \<Rightarrow> string \<Rightarrow> bool" where
  "includesStr [] pat = (pat = [])"
| "includesStr (c # cs) pat = (startsWith (c # cs) pat \<or> includesStr cs pat)"

text \<open>\<open>replace(/-/g, ' ')\<close>.\<close>

definition replaceHyphens :: "string \<Rightarrow> string" where
  "replaceHyphens s = map (\<lambda>c. if c = CHR ''-'' then CHR '' '' else c) s"

text \<open>The emoji of the source's messages, as UTF-8 bytes.\<close>

definition emojiCheckMark :: string where
  "emojiCheckMark = [CHR 0xE2, CHR 0x9C, CHR 0x85]"

definition emojiClipboard :: string where
  "emojiClipboard = [CHR 0xF0, CHR 0x9F, CHR 0x93, CHR 0x8B]"

definition emojiParty :: string where
  "emojiParty = [CHR 0xF0, CHR 0x9F, CHR 0x8E, CHR 0x89]"

definition emojiPointRight :: string where
  "emojiPointRight = [CHR 0xF0, CHR 0x9F, CHR 0x91, CHR 0x89]"

subsection \<open>Loading an experiment\<close>

text \<open>
  \<open>loadExperiment\<close>, given what \<open>getExperimentById\<close> returns for the requested id
  (\<open>None\<close> for an unknown id).
\<close>

definition loadExperiment :: "labExperiment option \<Rightarrow> labStore \<Rightarrow> labStore" where
  "loadExperiment found state =
     (case found of
        None \<Rightarrow> state
      | Some xp \<Rightarrow>
          state\<lparr>experimentMode := Guided,
                showLab := True,
                currentExperiment := Some xp,
                vessels := [],
                selectedVesselId := Some ''beaker_1'',
                placedApparatus := [],
                addedChemicals := [],
                experimentActions := [],
                currentObservation := emojiClipboard @ '' '' @ aim xp,
                currentExplanation := [],
                showExplanation := False,
                experimentHeatLevel := 0,
                experimentStirCount := 0\<rparr>)"

subsection \<open>Accumulating apparatus, chemicals and actions\<close>

definition addApparatusToExperiment :: "string \<Rightarrow> labStore \<Rightarrow> labStore" where
  "addApparatusToExperiment apparatusId state =
     (if apparatusId \<in> set (placedApparatus state) then state
      else state\<lparr>placedApparatus := placedApparatus state @ [apparatusId],
                 currentObservation :=
                   ''Added '' @ replaceHyphens apparatusId @ '' to the lab bench.''\<rparr>)"

definition addChemicalToExperiment :: "string \<Rightarrow> labStore \<Rightarrow> labStore" where
  "addChemicalToExperiment chemicalId state =
     (if chemicalId \<in> set (addedChemicals state) then state
      else
        let found = (case currentExperiment state of
                       None \<Rightarrow> None
                     | Some e \<Rightarrow> List.find (\<lambda>c. ec_id c = chemicalId) (exp_chemicals e));
            chemicalName = (case found of
                              None \<Rightarrow> replaceHyphens chemicalId
                            | Some c \<Rightarrow> if ec_name c = [] then replaceHyphens chemicalId
                                        else ec_name c)
        in state\<lparr>addedChemicals := addedChemicals state @ [chemicalId],
                  currentObservation := ''Added '' @ chemicalName @ '' to the apparatus.''\<rparr>)"

text \<open>
  \<open>performExperimentAction\<close>: a repeated action returns the state as it is, before any
  timer is set; a first \<open>heat\<close> in the evaporation experiment schedules the automatic
  \<open>evaporate\<close> after 5 s, a first \<open>stir\<close> schedules the end of stirring after 4 s.
\<close>

definition performExperimentAction :: "string \<Rightarrow> labStore \<Rightarrow> labStore" where
  "performExperimentAction action state =
     (if action \<in> set (experimentActions state) then state
      else
        let newActions = experimentActions state @ [action]
        in if action = ''heat''
           then state\<lparr>experimentActions := newActions,
                      experimentHeatLevel := min 100 (experimentHeatLevel state + 30),
                      pendingTimers :=
                        (if map_option exp_id (currentExperiment state) = Some ''evaporation''
                         then pendingTimers state @ [(5000, CbAutoEvaporate)]
                         else pendingTimers state)\<rparr>
           else if action = ''stir''
           then state\<lparr>experimentActions := newActions,
                      experimentStirCount := experimentStirCount state + 1,
                      isStirring := True,
                      pendingTimers := pendingTimers state @ [(4000, CbStirDone)]\<rparr>
           else state\<lparr>experimentActions := newActions\<rparr>)"


subsection \<open>Signature keys and the two lookup passes\<close>

text \<open>
  \<open>generateKeys\<close>, push by push; \<open>sort\<close> is the default sort of JavaScript on
  strings, the lexicographic order on code units.
\<close>

definition generateKeys :: "string list \<Rightarrow> string list \<Rightarrow> string list" where
  "generateKeys chems actions =
     (let keys0 = [];
          keys1 = (if length actions > 0
                   then (keys0 @ [joinPlus (chems @ actions)])
                          @ [joinPlus (sort chems @ sort actions)]
                   else keys0);
          keys2 = fold (\<lambda>action keys.
                          (keys @ [joinPlus (chems @ [action])])
                            @ [joinPlus (sort chems @ [action])])
                    actions keys1;
          keys3 = (if length chems > 0
                   then (keys2 @ [joinPlus chems]) @ [joinPlus (sort chems)]
                   else keys2)
      in keys3)"

text \<open>
  The exact pass: the first generated key that the outcome table defines. The table is
  looked up by its own keys (names joined by \<open>+\<close>); the properties that every
  JavaScript object inherits are not modelled.
\<close>

fun exactPass ::
  "(string \<times> experimentReaction) list \<Rightarrow> string list \<Rightarrow> (string \<times> experimentReaction) option" where
  "exactPass tbl [] = None"
| "exactPass tbl (key # keys) =
     (case map_of tbl key of
        Some r \<Rightarrow> Some (key, r)
      | None \<Rightarrow> exactPass tbl keys)"

definition actionWords :: "string list" where
  "actionWords = [''stir'', ''heat'', ''filter'', ''evaporate'', ''pour'']"

text \<open>
  The superset pass over the defined keys, in the table's order: the first key whose
  chemical tokens and action tokens are all present.
\<close>

fun supersetPass ::
  "(string \<times> experimentReaction) list \<Rightarrow> string list \<Rightarrow> string list \<Rightarrow> string list
     \<Rightarrow> (string \<times> experimentReaction) option" where
  "supersetPass tbl chems actions [] = None"
| "supersetPass tbl chems actions (definedKey # rest) =
     (let parts = splitPlus definedKey;
          requiredChemicals = filter (\<lambda>p. p \<notin> set actionWords) parts;
          requiredActions = filter (\<lambda>p. p \<in> set actionWords) parts;
          hasAllChemicals = list_all (\<lambda>c. c \<in> set chems) requiredChemicals;
          hasAllActions = list_all (\<lambda>a. a \<in> set actions) requiredActions
      in if hasAllChemicals \<and> hasAllActions
         then (case map_of tbl definedKey of
                 Some r \<Rightarrow> Some (definedKey, r)
               | None \<Rightarrow> supersetPass tbl chems actions rest)
         else supersetPass tbl chems actions rest)"

text \<open>The matched key and outcome: the exact pass first, the superset pass only after it fails.\<close>

definition matchReaction ::
  "(string \<times> experimentReaction) list \<Rightarrow> string list \<Rightarrow> string list
     \<Rightarrow> (string \<times> experimentReaction) option" where
  "matchReaction tbl chems actions =
     (case exactPass tbl (generateKeys chems actions) of
        Some m \<Rightarrow> Some m
      | None \<Rightarrow> supersetPass tbl chems actions (map fst tbl))"

subsection \<open>Outcome handling\<close>

text \<open>Marking complete inside \<open>checkExperimentReaction\<close>: the list, its stored copy, the popup timer.\<close>

definition recordCompletion :: "string \<Rightarrow> labStore \<Rightarrow> labStore" where
  "recordCompletion experimentId state =
     state\<lparr>completedExperiments := completedExperiments state @ [experimentId],
           storedCompleted := Some (completedExperiments state @ [experimentId]),
           pendingTimers := pendingTimers state @ [(3000, CbShowCompletionPopup)]\<rparr>"

text \<open>The salt-dissolution branch (two phases).\<close>

definition saltDissolutionOutcome ::
  "labExperiment \<Rightarrow> string \<Rightarrow> experimentReaction \<Rightarrow> labStore \<Rightarrow> labStore" where
  "saltDissolutionOutcome xp matchedKey matchedReaction state =
     (let saltPhase = (includesStr matchedKey ''salt'' \<and> includesStr matchedKey ''stir''
                        \<and> \<not> saltTested state);
          sandPhase = (\<not> saltPhase \<and> includesStr matchedKey ''sand''
                        \<and> includesStr matchedKey ''stir'' \<and> \<not> sandTested state);
          newSaltTested = (if saltPhase then True else saltTested state);
          newSandTested = (if sandPhase then True else sandTested state);
          resetPromptMessage0 =
            (if saltPhase
             then emojiCheckMark @ '' Salt test complete! Click RESET to test with Sand.''
             else [])
      in if newSaltTested \<and> newSandTested \<and> exp_id xp \<notin> set (completedExperiments state)
         then (recordCompletion (exp_id xp) state)
                \<lparr>currentObservation :=
                   emojiParty @ '' Experiment Complete! You tested both salt and sand.'',
                 currentExplanation := conclusion xp,
                 showExplanation := True,
                 saltTested := newSaltTested,
                 sandTested := newSandTested,
                 showResetPrompt := False,
                 resetPromptMessage := []\<rparr>
         else state\<lparr>currentObservation := observation matchedReaction,
                    currentExplanation := explanation matchedReaction,
                    showExplanation := True,
                    saltTested := newSaltTested,
                    sandTested := newSandTested,
                    showResetPrompt := (if newSaltTested \<and> newSandTested then False else saltPhase),
                    resetPromptMessage := resetPromptMessage0\<rparr>)"

text \<open>
  The physical-chemical branch (three phases). Each loop of the source visits every
  entry of the vessel map once and rewrites that entry.
\<close>

definition meltIce :: "labExperiment \<Rightarrow> labVessel \<Rightarrow> labVessel" where
  "meltIce xp vessel =
     (case List.find (\<lambda>c. chem_id (chemical c) = ''ice'') (contents vessel) of
        None \<Rightarrow> vessel
      | Some iceContent \<Rightarrow>
          let waterChem =
                (case List.find (\<lambda>c. ec_id c = ''water'') (exp_chemicals xp) of
                   None \<Rightarrow> \<lparr>chem_id = ''water'', chem_name = ''Water'', formula = None,
                             color = ''#a8d4ff'', chem_type = Water, concentration = None\<rparr>
                 | Some expWater \<Rightarrow>
                     \<lparr>chem_id = ec_id expWater, chem_name = ec_name expWater, formula = None,
                      color = ec_color expWater, chem_type = Water, concentration = None\<rparr>);
              visualIceRatio = 0.4;
              waterVolume = volume iceContent * visualIceRatio
          in vessel\<lparr>contents := [\<lparr>chemical = waterChem, volume = waterVolume\<rparr>],
                     currentVolume := waterVolume\<rparr>)"

definition burnInTongs :: "string \<Rightarrow> chemical \<Rightarrow> labVessel \<Rightarrow> labVessel" where
  "burnInTongs burntId ashChem vessel =
     (if vessel_type vessel = Tongs
         \<and> List.find (\<lambda>c. chem_id (chemical c) = burntId) (contents vessel) \<noteq> None
      then vessel\<lparr>contents := [\<lparr>chemical = ashChem, volume = 1\<rparr>]\<rparr>
      else vessel)"

definition physicalChemicalOutcome ::
  "labExperiment \<Rightarrow> string \<Rightarrow> experimentReaction \<Rightarrow> labStore \<Rightarrow> labStore" where
  "physicalChemicalOutcome xp matchedKey matchedReaction state =
     (let shown = state\<lparr>currentObservation := observation matchedReaction,
                        currentExplanation := explanation matchedReaction,
                        showExplanation := True\<rparr>
      in if matchedKey = ''ice+heat''
         then shown\<lparr>vessels := map (\<lambda>(vid, vessel). (vid, meltIce xp vessel)) (vessels state),
                    showResetPrompt := True,
                    resetPromptMessage :=
                      emojiCheckMark @ '' Ice melted! Click RESET to test with Paper.'',
                    iceTested := True\<rparr>
         else if matchedKey = ''paper+heat''
         then shown\<lparr>vessels :=
                      map (\<lambda>(vid, vessel).
                             (vid, burnInTongs ''paper''
                                \<lparr>chem_id = ''ash'', chem_name = ''Ash'', formula = None,
                                 color = ''#333'', chem_type = Neutral, concentration = None\<rparr>
                                vessel))
                        (vessels state),
                    showResetPrompt := True,
                    resetPromptMessage :=
                      emojiCheckMark @ '' Paper burnt! Click RESET to test with Magnesium.'',
                    paperTested := True,
                    bunsenBurnerOn := False\<rparr>
         else if matchedKey = ''magnesium+heat''
         then (if exp_id xp \<notin> set (completedExperiments state)
               then recordCompletion (exp_id xp) shown else shown)
                \<lparr>vessels :=
                   map (\<lambda>(vid, vessel).
                          (vid, burnInTongs ''magnesium''
                             \<lparr>chem_id = ''magnesium-oxide'', chem_name = ''Magnesium Oxide'',
                              formula = None, color = ''#fff'', chem_type = Base,
                              concentration = None\<rparr>
                             vessel))
                     (vessels state),
                 magnesiumTested := True,
                 bunsenBurnerOn := False\<rparr>
         else shown\<lparr>showResetPrompt := False, resetPromptMessage := []\<rparr>)"

definition checkExperimentReaction :: "labStore \<Rightarrow> labStore" where
  "checkExperimentReaction state =
     (case currentExperiment state of
        None \<Rightarrow> state
      | Some xp \<Rightarrow>
         (case matchReaction (reactions xp) (addedChemicals state) (experimentActions state) of
            None \<Rightarrow> state
          | Some (matchedKey, matchedReaction) \<Rightarrow>
              if exp_id xp = ''salt-dissolution'' \<and> success matchedReaction
              then saltDissolutionOutcome xp matchedKey matchedReaction state
              else if exp_id xp = ''physical-chemical''
              then physicalChemicalOutcome xp matchedKey matchedReaction state
              else if success matchedReaction \<and> exp_id xp \<notin> set (completedExperiments state)
              then (recordCompletion (exp_id xp) state)
                     \<lparr>currentObservation :=
                        (if observation matchedReaction = [] then ''Experiment Complete!''
                         else observation matchedReaction),
                      currentExplanation :=
                        (if explanation matchedReaction = [] then conclusion xp
                         else explanation matchedReaction),
                      showExplanation := True\<rparr>
              else state\<lparr>currentObservation := observation matchedReaction,
                         currentExplanation := explanation matchedReaction,
                         showExplanation :=
                           (success matchedReaction \<or> explanation matchedReaction \<noteq> [])\<rparr>))"

subsection \<open>Reset\<close>

definition resetExperiment :: "labStore \<Rightarrow> labStore" where
  "resetExperiment state =
     (case currentExperiment state of
        None \<Rightarrow> state
      | Some xp \<Rightarrow>
          let aimObservation = emojiClipboard @ '' '' @ aim xp;
              afterSalt = (exp_id xp = ''salt-dissolution''
                            \<and> saltTested state \<and> \<not> sandTested state);
              bothSalt = (exp_id xp = ''salt-dissolution''
                            \<and> saltTested state \<and> sandTested state);
              newResetAfterSaltTest =
                (if afterSalt then True else if bothSalt then False
                 else resetAfterSaltTest state);
              previousSteps =
                (if afterSalt
                 then [''Add water to the beaker'', ''Add salt to the water'',
                       ''Stir the mixture'', ''Observe: Salt disappears'']
                 else []);
              observation0 =
                (if afterSalt
                 then emojiPointRight @ '' Now test with SAND. Add water, then add sand, and stir.''
                 else aimObservation);
              physical = (exp_id xp = ''physical-chemical'');
              allThree = (physical \<and> iceTested state \<and> paperTested state
                            \<and> magnesiumTested state);
              observation1 =
                (if physical \<and> iceTested state \<and> \<not> paperTested state
                 then emojiPointRight @ '' Round 2: Now test with PAPER. Place burner and tongs, then add paper strip and heat.''
                 else if physical \<and> iceTested state \<and> paperTested state
                           \<and> \<not> magnesiumTested state
                 then emojiPointRight @ '' Round 3: Now test with MAGNESIUM. Place burner and tongs, then add magnesium ribbon and heat.''
                 else if allThree then aimObservation
                 else observation0)
          in state\<lparr>currentExperiment :=
                     Some (xp\<lparr>procedureSteps :=
                                 (if previousSteps \<noteq> [] then Some previousSteps
                                  else procedureSteps xp)\<rparr>),
                    vessels := [],
                    placedApparatus := [],
                    addedChemicals := [],
                    experimentActions := [],
                    experimentRunning := Some False,
                    timer := Some 0,
                    currentObservation := observation1,
                    currentExplanation := [],
                    showExplanation := False,
                    experimentHeatLevel := 0,
                    experimentStirCount := 0,
                    isStirring := False,
                    resetAfterSaltTest := newResetAfterSaltTest,
                    saltTested := (if saltTested state \<and> sandTested state then False
                                   else saltTested state),
                    sandTested := (if saltTested state \<and> sandTested state then False
                                   else sandTested state),
                    iceTested := (if allThree then False else iceTested state),
                    paperTested := (if allThree then False else paperTested state),
                    magnesiumTested := (if allThree then False else magnesiumTested state),
                    showResetPrompt := False,
                    resetPromptMessage := [],
                    showCompletionPopup := False,
                    dishCracked := False,
                    safetyWarning := None,
                    bunsenBurnerOn := False\<rparr>)"

definition markExperimentComplete :: "string \<Rightarrow> labStore \<Rightarrow> labStore" where
  "markExperimentComplete experimentId state =
     (if experimentId \<in> set (completedExperiments state) then state
      else state\<lparr>completedExperiments := completedExperiments state @ [experimentId],
                 storedCompleted := Some (completedExperiments state @ [experimentId])\<rparr>)"

subsection \<open>Neutralization drops\<close>




definition resetNeutralizationState :: "labStore \<Rightarrow> labStore" where
  "resetNeutralizationState state =
     state\<lparr>neutralizationAnimating := False, neutralizationDropCount := 0,
           neutralizationComplete := False\<rparr>"

subsection \<open>Timer callbacks\<close>

text \<open>What each scheduled callback does when it fires; \<open>now\<close> is \<open>Date.now()\<close> then.\<close>

definition runCallback :: "int \<Rightarrow> callback \<Rightarrow> labStore \<Rightarrow> labStore" where
  "runCallback now cb state =
     (case cb of
        CbApplyReaction vesselId r \<Rightarrow> applyReaction now vesselId r state
      | CbAutoEvaporate \<Rightarrow> checkExperimentReaction (performExperimentAction ''evaporate'' state)
      | CbStirDone \<Rightarrow> checkExperimentReaction (state\<lparr>isStirring := False\<rparr>)
      | CbShowCompletionPopup \<Rightarrow> state\<lparr>showCompletionPopup := True\<rparr>)"

section \<open>Liquid colour of a beaker (components/Beaker.tsx)\<close>






section \<open>Heating system (HeatingSystem, unnamed/part_006)\<close>

definition heatingZone :: "real \<times> real \<times> real" where
  "heatingZone = (0, 0, 2.0)"

definition heatingDistance :: real where
  "heatingDistance = 0.7"

definition distanceToZone :: "labVessel \<Rightarrow> real" where
  "distanceToZone vessel =
     (let dx = fst (position vessel) - fst heatingZone;
          dz = snd (snd (position vessel)) - snd (snd heatingZone)
      in sqrt (dx * dx + dz * dz))"

definition addEffect :: "reactionEffect \<Rightarrow> string \<Rightarrow> int \<Rightarrow> int \<Rightarrow> labStore \<Rightarrow> labStore" where
  "addEffect ty vesselId dur now state =
     state\<lparr>activeEffects := activeEffects state @
              [\<lparr>effect_id = effectIdCounter state + 1, effect_type = ty,
                effect_vesselId = vesselId, startTime = now, duration = dur\<rparr>],
           effectIdCounter := effectIdCounter state + 1\<rparr>"

text \<open>One vessel of a cooling loop: \<open>rate\<close> is 5 with the burner off, 3 outside the zone.\<close>

definition coolStep :: "real \<Rightarrow> real \<Rightarrow> labVessel \<Rightarrow> labStore \<Rightarrow> labStore" where
  "coolStep rate delta vessel state =
     (if temperature vessel > 25
      then updateVesselTemperature (vessel_id vessel)
             (max 25 (temperature vessel - delta * rate)) state
      else state)"

text \<open>
  One vessel of the loop that runs while the burner is on. The second component is
  \<open>lastBoilTime.current\<close>; \<open>snapEffects\<close> is the \<open>activeEffects\<close> the component
  rendered with.
\<close>

definition heatStep ::
  "activeEffect list \<Rightarrow> real \<Rightarrow> int \<Rightarrow> labVessel \<Rightarrow> labStore \<times> int \<Rightarrow> labStore \<times> int" where
  "heatStep snapEffects delta now vessel acc =
     (let state = fst acc;
          lastBoilTime = snd acc;
          distance = distanceToZone vessel
      in if distance < heatingDistance
         then
           let heatingRate = 15 * (1 - distance / heatingDistance);
               newTemp = min 120 (temperature vessel + delta * heatingRate);
               heated = updateVesselTemperature (vessel_id vessel) newTemp state;
               hasIce = list_ex (\<lambda>c. chem_id (chemical c) = ''ice'') (contents vessel)
           in if temperature vessel \<ge> 100 \<and> currentVolume vessel > 0 \<and> \<not> hasIce
                 \<and> now - lastBoilTime > 5000
                 \<and> \<not> list_ex (\<lambda>e. effect_vesselId e = vessel_id vessel
                                     \<and> (effect_type e = Boiling \<or> effect_type e = Steam))
                         snapEffects
              then (addEffect Steam (vessel_id vessel) 5000 now
                      (addEffect Boiling (vessel_id vessel) 5000 now heated), now)
              else (heated, lastBoilTime)
         else (coolStep 3 delta vessel state, lastBoilTime))"

text \<open>
  The frame callback of \<open>HeatingSystem\<close>: \<open>delta\<close> is the frame time in seconds, \<open>now\<close>
  is \<open>Date.now()\<close>; the vessels and effects looped over are those of the store when
  the frame starts.
\<close>

definition heatingFrame :: "real \<Rightarrow> int \<Rightarrow> labStore \<times> int \<Rightarrow> labStore \<times> int" where
  "heatingFrame delta now acc =
     (let state = fst acc;
          snapVessels = map snd (vessels state);
          snapEffects = activeEffects state
      in if \<not> bunsenBurnerOn state
         then (fold (coolStep 5 delta) snapVessels state, snd acc)
         else fold (heatStep snapEffects delta now) snapVessels acc)"

text \<open>Every key of the vessel map is the id of its vessel, and no key occurs twice.\<close>

definition wellKeyed :: "labStore \<Rightarrow> bool" where
  "wellKeyed state =
     (distinct (map fst (vessels state))
      \<and> list_all (\<lambda>entry. vessel_id (snd entry) = fst entry) (vessels state))"

section \<open>Specification-level measures and concrete benches\<close>

text \<open>The total volume that a content list records for one chemical id.\<close>

definition chemVolume :: "string \<Rightarrow> vesselContents list \<Rightarrow> real" where
  "chemVolume k cs = sum_list (map volume (filter (\<lambda>c. chem_id (chemical c) = k) cs))"




definition filtrationBench :: labStore where
  "filtrationBench =
     fillVessel ''beaker_1'' CHEMICALS_water 30 (addVessel collectionBeaker (initialStore None))"

definition emptyFiltrationBench :: labStore where
  "emptyFiltrationBench = addVessel collectionBeaker (initialStore None)"



definition acidBaseBench :: labStore where
  "acidBaseBench =
     fillVessel ''beaker_1'' CHEMICALS_sodium_hydroxide 50
       (fillVessel ''beaker_1'' CHEMICALS_hydrochloric_acid 50 (initialStore None))"


text \<open>
  The salt-dissolution experiment of the experiment data (unnamed/part_007). The two byte sequences in
  the first explanation are the characters that the source file holds after \<open>Na\<close> and
  \<open>Cl\<close>.
\<close>

definition saltDissolution :: labExperiment where
  "saltDissolution = \<lparr>
     exp_id = ''salt-dissolution'',
     exp_title = ''Dissolving Salt vs Sand in Water'',
     exp_chapter = ''Separation of Substances'',
     classLevel = 6,
     aim = ''To study the solubility of salt and sand in water.'',
     apparatus = [''beaker'', ''glass-rod''],
     exp_chemicals = [
       \<lparr>ec_id = ''water'', ec_name = ''Water'', ec_color = ''#a8d4ff''\<rparr>,
       \<lparr>ec_id = ''salt'', ec_name = ''Common Salt'', ec_color = ''#d0e8ff''\<rparr>,
       \<lparr>ec_id = ''sand'', ec_name = ''Sand'', ec_color = ''#c4a465''\<rparr>],
     reactions = [
       (''water+salt+stir'',
          \<lparr>observation = ''The salt crystals gradually disappear as you stir. The solution becomes slightly milky.'',
           explanation = ''Salt (sodium chloride) is soluble in water. Water molecules surround the salt ions (Na''
             @ [CHR 0xC3, CHR 0xA2, CHR 0xC2, CHR 0xBA] @ '' and Cl''
             @ [CHR 0xC3, CHR 0xA2, CHR 0xC2, CHR 0xBB]
             @ '') and pull them apart, distributing them evenly throughout the solution. This is called dissolution.'',
           success = True\<rparr>),
       (''water+sand+stir'',
          \<lparr>observation = ''The sand particles swirl around but settle at the bottom when stirring stops. The water becomes slightly cloudy.'',
           explanation = ''Sand (silicon dioxide) is insoluble in water. The water molecules cannot break apart the strong bonds in sand particles. Sand is denser than water, so it sinks and settles at the bottom.'',
           success = True\<rparr>),
       (''water+salt'',
          \<lparr>observation = ''Salt crystals are sitting in the water. Nothing much is happening yet.'',
           explanation = ''Try stirring the mixture to help the salt dissolve faster. Stirring increases the contact between water molecules and salt crystals.'',
           success = False\<rparr>),
       (''water+sand'',
          \<lparr>observation = ''Sand has sunk to the bottom of the beaker. The water above is clear.'',
           explanation = ''Sand is denser than water and insoluble, so it naturally settles at the bottom.'',
           success = False\<rparr>)],
     conclusion = ''Salt is soluble in water and forms a clear solution. Sand is insoluble in water and settles at the bottom. This difference in solubility can be used to separate mixtures of salt and sand.'',
     procedureSteps = Some [
       ''Place the beaker on the lab bench'',
       ''Add water to the beaker'',
       ''Add salt to the water'',
       ''Place the glass rod'',
       ''Stir the mixture with glass rod'',
       ''Observe - then Reset and repeat with sand'']\<rparr>"

text \<open>The store after \<open>loadExperiment('salt-dissolution')\<close> from the initial state.\<close>

definition saltBench :: labStore where
  "saltBench = loadExperiment (Some saltDissolution) (initialStore None)"

text \<open>
  Phase A and phase B of the salt-dissolution procedure as the store sees them: the
  chemicals are added, \<open>stir\<close> is performed, and the stir timer fires.
\<close>

definition saltPhase :: "string \<Rightarrow> int \<Rightarrow> labStore \<Rightarrow> labStore" where
  "saltPhase solid now state =
     runCallback now CbStirDone
       (performExperimentAction ''stir''
          (addChemicalToExperiment solid (addChemicalToExperiment ''water'' state)))"






section \<open>Lemmas on maps and on the transfer\<close>

lemma map_of_update:
  "map_of (AList.update k v al) k' = (if k' = k then Some v else map_of al k')"
  by (simp add: update_conv')

lemma scheduleReaction_fields:
  "vessels (scheduleReaction v rr st) = vessels st"
  "experimentActions (scheduleReaction v rr st) = experimentActions st"
  "pendingFiltrationVolume (scheduleReaction v rr st) = pendingFiltrationVolume st"
  by (simp_all add: scheduleReaction_def split: option.splits)

lemma transferLiquid_noop:
  assumes "map_of (vessels st) sid = Some s" "map_of (vessels st) tid = Some t"
    and "\<not> (0 < currentVolume s \<and> 0 < actualTransferOf s t vol)"
  shows "transferLiquid sid tid vol st = st"
  using assms by (auto simp: transferLiquid_def Let_def)

lemma transferLiquid_source:
  assumes "map_of (vessels st) sid = Some s" "map_of (vessels st) tid = Some t"
    and "0 < currentVolume s" "0 < actualTransferOf s t vol" "sid \<noteq> tid"
  shows "map_of (vessels (transferLiquid sid tid vol st)) sid =
     Some (s\<lparr>currentVolume := currentVolume s - actualTransferOf s t vol,
             contents := fst (fold (splitEntry (actualTransferOf s t vol / currentVolume s))
                                (contents s) ([], []))\<rparr>)"
  using assms by (simp add: transferLiquid_def Let_def map_of_update scheduleReaction_fields)

lemma transferLiquid_target:
  assumes "map_of (vessels st) sid = Some s" "map_of (vessels st) tid = Some t"
    and "0 < currentVolume s" "0 < actualTransferOf s t vol"
  shows "map_of (vessels (transferLiquid sid tid vol st)) tid =
     Some (if tid = ''collection_beaker'' then t
           else t\<lparr>currentVolume := currentVolume t + actualTransferOf s t vol,
                  contents := fold mergeEntry
                    (snd (fold (splitEntry (actualTransferOf s t vol / currentVolume s))
                            (contents s) ([], [])))
                    (contents t)\<rparr>)"
  using assms by (simp add: transferLiquid_def Let_def map_of_update scheduleReaction_fields)

lemma transferLiquid_pending:
  assumes "map_of (vessels st) sid = Some s" "map_of (vessels st) tid = Some t"
    and "0 < currentVolume s" "0 < actualTransferOf s t vol"
  shows "pendingFiltrationVolume (transferLiquid sid tid vol st) =
     (if tid = ''collection_beaker''
      then pendingFiltrationVolume st + actualTransferOf s t vol
      else pendingFiltrationVolume st)"
  using assms by (simp add: transferLiquid_def Let_def scheduleReaction_fields)

lemma transferLiquid_actions:
  assumes "map_of (vessels st) sid = Some s" "map_of (vessels st) tid = Some t"
    and "0 < currentVolume s" "0 < actualTransferOf s t vol"
  shows "experimentActions (transferLiquid sid tid vol st) =
     (if tid = ''collection_beaker'' \<and> ''pour'' \<notin> set (experimentActions st)
      then experimentActions st @ [''pour''] else experimentActions st)"
  using assms by (simp add: transferLiquid_def Let_def scheduleReaction_fields)

lemmas rule_defs = findReaction_def REACTIONS_def acid_base_neutralization_def
  acid_metal_reaction_def indicator_base_def barium_sulfate_precipitation_def

lemmas store_defs =
  getVessel_def fillVessel_def addVessel_def initialStore_def emptyVessel_def collectionBeaker_def
  Let_def scheduleReaction_def checkReaction_def CHEMICALS_water_def CHEMICALS_sodium_chloride_def
  transferLiquid_def actualTransferOf_def splitEntry_def mergeEntry_def





lemma chemVolume_append:
  "chemVolume k (xs @ ys) = chemVolume k xs + chemVolume k ys"
  by (simp add: chemVolume_def)







section \<open>Vessel content and conservation\<close>










text \<open>
  Claim C10, as amended. A transfer from another vessel into \<open>collection_beaker\<close> that
  moves a positive clamped amount leaves the collection beaker as it was, adds the
  amount to \<open>pendingFiltrationVolume\<close>, takes it from the source, and appends \<open>pour\<close>
  to \<open>experimentActions\<close> unless it is there; a call that moves nothing returns the
  state unchanged.
\<close>

theorem transferLiquid_collection_beaker:
  assumes "getVessel st sid = Some s" and "getVessel st ''collection_beaker'' = Some t"
    and "sid \<noteq> ''collection_beaker''"
  shows "if 0 < currentVolume s \<and> 0 < actualTransferOf s t vol
         then getVessel (transferLiquid sid ''collection_beaker'' vol st) ''collection_beaker'' = Some t
              \<and> pendingFiltrationVolume (transferLiquid sid ''collection_beaker'' vol st)
                   = pendingFiltrationVolume st + actualTransferOf s t vol
              \<and> map_option currentVolume (getVessel (transferLiquid sid ''collection_beaker'' vol st) sid)
                   = Some (currentVolume s - actualTransferOf s t vol)
              \<and> experimentActions (transferLiquid sid ''collection_beaker'' vol st)
                   = (if ''pour'' \<in> set (experimentActions st) then experimentActions st
                      else experimentActions st @ [''pour''])
         else transferLiquid sid ''collection_beaker'' vol st = st"
proof (cases "0 < currentVolume s \<and> 0 < actualTransferOf s t vol")
  case False
  with assms have "transferLiquid sid ''collection_beaker'' vol st = st"
    by (simp add: getVessel_def transferLiquid_noop)
  with False show ?thesis by simp
next
  case True
  with assms show ?thesis
    by (simp add: getVessel_def transferLiquid_source transferLiquid_target
          transferLiquid_pending transferLiquid_actions)
qed

theorem transferLiquid_collection_beaker_witness:
  "getVessel filtrationBench ''beaker_1'' \<noteq> None
   \<and> getVessel filtrationBench ''collection_beaker'' = Some collectionBeaker
   \<and> ''beaker_1'' \<noteq> ''collection_beaker''
   \<and> pendingFiltrationVolume filtrationBench = 0
   \<and> experimentActions filtrationBench = []
   \<and> getVessel (transferLiquid ''beaker_1'' ''collection_beaker'' 50 filtrationBench) ''collection_beaker''
        = Some collectionBeaker
   \<and> pendingFiltrationVolume (transferLiquid ''beaker_1'' ''collection_beaker'' 50 filtrationBench) = 30
   \<and> map_option currentVolume
        (getVessel (transferLiquid ''beaker_1'' ''collection_beaker'' 50 filtrationBench) ''beaker_1'') = Some 0
   \<and> experimentActions (transferLiquid ''beaker_1'' ''collection_beaker'' 50 filtrationBench) = [''pour'']"
proof -
  obtain s where s: "getVessel filtrationBench ''beaker_1'' = Some s" and vs: "currentVolume s = 30"
    by (simp add: filtrationBench_def store_defs rule_defs)
  have t: "getVessel filtrationBench ''collection_beaker'' = Some collectionBeaker"
    by (simp add: filtrationBench_def store_defs rule_defs)
  have ne: "''beaker_1'' \<noteq> ''collection_beaker''" by simp
  have a: "actualTransferOf s collectionBeaker 50 = 30"
    using vs by (simp add: actualTransferOf_def Let_def collectionBeaker_def)
  have p: "pendingFiltrationVolume filtrationBench = 0" "experimentActions filtrationBench = []"
    by (simp_all add: filtrationBench_def store_defs)
  from transferLiquid_collection_beaker [OF s t ne, of 50] s t vs a p
  show ?thesis by simp
qed

text \<open>
  Claim C10 as stated fails for a call that moves nothing: with \<open>beaker_1\<close> empty, the
  call returns the state as it is and \<open>pour\<close> is not inserted.
\<close>

theorem transferLiquid_empty_source_counterexample:
  "map_option currentVolume (getVessel emptyFiltrationBench ''beaker_1'') = Some 0
   \<and> getVessel emptyFiltrationBench ''collection_beaker'' = Some collectionBeaker
   \<and> experimentActions emptyFiltrationBench = []
   \<and> experimentActions (transferLiquid ''beaker_1'' ''collection_beaker'' 10 emptyFiltrationBench) = []"
  by (simp add: emptyFiltrationBench_def store_defs rule_defs)

section \<open>Reaction matcher and reaction application\<close>

lemma findReaction_sound:
  "findReaction rs a b = Some r \<Longrightarrow>
     r \<in> set rs \<and> ((chemicalType1 (reactants r) = a \<and> chemicalType2 (reactants r) = b)
                   \<or> (chemicalType1 (reactants r) = b \<and> chemicalType2 (reactants r) = a))"
  unfolding findReaction_def by (auto simp: find_Some_iff)

lemma innerLoop_sound:
  "innerLoop rs c ds = Some r \<Longrightarrow>
     \<exists>j < length ds. findReaction rs (chem_type (chemical c)) (chem_type (chemical (ds ! j))) = Some r"
proof (induction ds)
  case Nil
  then show ?case by simp
next
  case (Cons d ds)
  show ?case
  proof (cases "findReaction rs (chem_type (chemical c)) (chem_type (chemical d))")
    case None
    with Cons obtain j where "j < length ds"
      "findReaction rs (chem_type (chemical c)) (chem_type (chemical (ds ! j))) = Some r"
      by auto
    then have "Suc j < length (d # ds) \<and>
      findReaction rs (chem_type (chemical c)) (chem_type (chemical ((d # ds) ! Suc j))) = Some r"
      by simp
    then show ?thesis by blast
  next
    case (Some r')
    with Cons.prems have "0 < length (d # ds) \<and>
      findReaction rs (chem_type (chemical c)) (chem_type (chemical ((d # ds) ! 0))) = Some r"
      by simp
    then show ?thesis by blast
  qed
qed

lemma outerLoop_sound:
  "outerLoop rs cs = Some r \<Longrightarrow>
     \<exists>i j. i < j \<and> j < length cs
        \<and> findReaction rs (chem_type (chemical (cs ! i))) (chem_type (chemical (cs ! j))) = Some r"
proof (induction cs)
  case Nil
  then show ?case by simp
next
  case (Cons c cs)
  show ?case
  proof (cases "innerLoop rs c cs")
    case None
    with Cons obtain i j where "i < j" "j < length cs"
      "findReaction rs (chem_type (chemical (cs ! i))) (chem_type (chemical (cs ! j))) = Some r"
      by auto
    then have "Suc i < Suc j \<and> Suc j < length (c # cs) \<and>
      findReaction rs (chem_type (chemical ((c # cs) ! Suc i)))
        (chem_type (chemical ((c # cs) ! Suc j))) = Some r"
      by simp
    then show ?thesis by blast
  next
    case (Some r')
    with Cons.prems have "innerLoop rs c cs = Some r" by simp
    from innerLoop_sound [OF this] obtain j where "j < length cs"
      "findReaction rs (chem_type (chemical c)) (chem_type (chemical (cs ! j))) = Some r"
      by blast
    then have "0 < Suc j \<and> Suc j < length (c # cs) \<and>
      findReaction rs (chem_type (chemical ((c # cs) ! 0)))
        (chem_type (chemical ((c # cs) ! Suc j))) = Some r"
      by simp
    then show ?thesis by blast
  qed
qed

lemma checkReaction_sound:
  assumes "rr_reaction (checkReaction rs cs) = Some r"
  shows "\<exists>i j. i < j \<and> j < length cs \<and> r \<in> set rs
     \<and> ((chemicalType1 (reactants r) = chem_type (chemical (cs ! i))
          \<and> chemicalType2 (reactants r) = chem_type (chemical (cs ! j)))
        \<or> (chemicalType1 (reactants r) = chem_type (chemical (cs ! j))
          \<and> chemicalType2 (reactants r) = chem_type (chemical (cs ! i))))"
proof -
  from assms have "outerLoop rs cs = Some r"
    by (auto simp: checkReaction_def split: if_splits option.splits)
  from outerLoop_sound [OF this] obtain i j where ij: "i < j" "j < length cs"
    and f: "findReaction rs (chem_type (chemical (cs ! i))) (chem_type (chemical (cs ! j))) = Some r"
    by blast
  from findReaction_sound [OF f] ij show ?thesis by blast
qed

lemma reactants_simps:
  "reactants acid_base_neutralization = \<lparr>chemicalType1 = Acid, chemicalType2 = Base\<rparr>"
  "reactants acid_metal_reaction = \<lparr>chemicalType1 = Acid, chemicalType2 = Metal\<rparr>"
  "reactants indicator_base = \<lparr>chemicalType1 = Indicator, chemicalType2 = Base\<rparr>"
  "reactants barium_sulfate_precipitation = \<lparr>chemicalType1 = Salt, chemicalType2 = Acid\<rparr>"
  by (simp_all add: acid_base_neutralization_def acid_metal_reaction_def indicator_base_def
        barium_sulfate_precipitation_def)

lemma findReaction_acid_base:
  "findReaction REACTIONS Acid Base = Some acid_base_neutralization"
  by (simp add: findReaction_def REACTIONS_def reactants_simps)

lemma sum_list_const_split:
  "sum_list (map (\<lambda>p. (x::real) / real (length ps)) ps) = (if ps = [] then 0 else x)"
  by (simp add: sum_list_triv)

text \<open>
  Claim C4. When the matcher run on a vessel's contents returns the rule \<open>r\<close> (a rule
  of the rule base whose category pair matches, in either order, the categories of two
  entries at positions \<open>i < j\<close>), \<open>applyReaction\<close> replaces the whole content list by
  one entry per product of \<open>r\<close>, in the rule's order, each with the volume
  \<open>currentVolume / (number of products)\<close>; \<open>currentVolume\<close> itself is unchanged and,
  for a rule with at least one product, is the sum of the new entries.
\<close>

theorem applyReaction_equal_split:
  assumes "getVessel st vid = Some v"
    and "rr_reaction (checkReaction rules (contents v)) = Some r"
  shows "\<exists>v'. getVessel (applyReaction now vid r st) vid = Some v'
           \<and> contents v' =
                map (\<lambda>p. \<lparr>chemical = p, volume = currentVolume v / real (length (products r))\<rparr>)
                  (products r)
           \<and> sum_list (map volume (contents v')) = (if products r = [] then 0 else currentVolume v)
           \<and> currentVolume v' = currentVolume v
           \<and> (\<exists>i j. i < j \<and> j < length (contents v) \<and> r \<in> set rules
                \<and> ((chemicalType1 (reactants r) = chem_type (chemical (contents v ! i))
                     \<and> chemicalType2 (reactants r) = chem_type (chemical (contents v ! j)))
                   \<or> (chemicalType1 (reactants r) = chem_type (chemical (contents v ! j))
                     \<and> chemicalType2 (reactants r) = chem_type (chemical (contents v ! i)))))"
proof -
  have "getVessel (applyReaction now vid r st) vid =
          Some (v\<lparr>contents := map (\<lambda>p. \<lparr>chemical = p,
                     volume = currentVolume v / real (length (products r))\<rparr>) (products r)\<rparr>)"
    using assms(1) by (simp add: applyReaction_def getVessel_def Let_def map_of_update)
  moreover have "sum_list (map volume (map (\<lambda>p. \<lparr>chemical = p,
                     volume = currentVolume v / real (length (products r))\<rparr>) (products r)))
                 = (if products r = [] then 0 else currentVolume v)"
    by (simp add: comp_def sum_list_const_split)
  ultimately show ?thesis
    using checkReaction_sound [OF assms(2)] by simp
qed

theorem applyReaction_equal_split_witness:
  "map_option contents (getVessel acidBaseBench ''beaker_1'')
     = Some [\<lparr>chemical = CHEMICALS_hydrochloric_acid, volume = 50\<rparr>,
             \<lparr>chemical = CHEMICALS_sodium_hydroxide, volume = 50\<rparr>]
   \<and> map_option currentVolume (getVessel acidBaseBench ''beaker_1'') = Some 100
   \<and> pendingTimers acidBaseBench = [(100, CbApplyReaction ''beaker_1'' acid_base_neutralization)]
   \<and> map_option contents (getVessel (applyReaction 0 ''beaker_1'' acid_base_neutralization acidBaseBench) ''beaker_1'')
     = Some [\<lparr>chemical = CHEMICALS_water, volume = 50\<rparr>,
             \<lparr>chemical = CHEMICALS_sodium_chloride, volume = 50\<rparr>]"
proof -
  have ty: "chem_type CHEMICALS_hydrochloric_acid = Acid" "chem_type CHEMICALS_sodium_hydroxide = Base"
    by (simp_all add: CHEMICALS_hydrochloric_acid_def CHEMICALS_sodium_hydroxide_def)
  have ids: "chem_id CHEMICALS_hydrochloric_acid \<noteq> chem_id CHEMICALS_sodium_hydroxide"
    by (simp add: CHEMICALS_hydrochloric_acid_def CHEMICALS_sodium_hydroxide_def)
  obtain v where v: "getVessel acidBaseBench ''beaker_1'' = Some v"
    and cv: "contents v = [\<lparr>chemical = CHEMICALS_hydrochloric_acid, volume = 50\<rparr>,
                           \<lparr>chemical = CHEMICALS_sodium_hydroxide, volume = 50\<rparr>]"
           "currentVolume v = 100"
    using ids by (simp add: acidBaseBench_def getVessel_def fillVessel_def initialStore_def
          emptyVessel_def Let_def scheduleReaction_def checkReaction_def ty findReaction_acid_base)
  have r: "rr_reaction (checkReaction REACTIONS (contents v)) = Some acid_base_neutralization"
    unfolding cv by (simp add: checkReaction_def ty findReaction_acid_base)
  have t: "pendingTimers acidBaseBench = [(100, CbApplyReaction ''beaker_1'' acid_base_neutralization)]"
    using ids by (simp add: acidBaseBench_def getVessel_def fillVessel_def initialStore_def
          emptyVessel_def Let_def scheduleReaction_def checkReaction_def ty findReaction_acid_base)
  have p: "products acid_base_neutralization = [CHEMICALS_water, CHEMICALS_sodium_chloride]"
    by (simp add: acid_base_neutralization_def)
  from applyReaction_equal_split [OF v r, of 0] v cv t p
  show ?thesis by auto
qed

section \<open>Guided experiments\<close>

text \<open>
  Claim C6. For every id, a second call of \<open>addApparatusToExperiment\<close>,
  \<open>addChemicalToExperiment\<close> or \<open>performExperimentAction\<close> with the same id returns
  the state of the first call (timers included: the repeated call schedules nothing),
  and each call inserts its id into the set of its list.
\<close>

theorem experiment_inserts_idempotent:
  "addApparatusToExperiment a (addApparatusToExperiment a st) = addApparatusToExperiment a st
   \<and> addChemicalToExperiment c (addChemicalToExperiment c st) = addChemicalToExperiment c st
   \<and> performExperimentAction x (performExperimentAction x st) = performExperimentAction x st
   \<and> set (placedApparatus (addApparatusToExperiment a st)) = insert a (set (placedApparatus st))
   \<and> set (addedChemicals (addChemicalToExperiment c st)) = insert c (set (addedChemicals st))
   \<and> set (experimentActions (performExperimentAction x st)) = insert x (set (experimentActions st))"
  by (auto simp: addApparatusToExperiment_def addChemicalToExperiment_def
        performExperimentAction_def Let_def)

lemma fold_push_keys:
  "fold (\<lambda>action keys. (keys @ [f action]) @ [g action]) actions keys0 =
     keys0 @ concat (map (\<lambda>action. [f action, g action]) actions)"
  by (induction actions arbitrary: keys0) simp_all

lemma generateKeys_ranked:
  "generateKeys chems actions =
     (if actions = [] then []
      else [joinPlus (chems @ actions), joinPlus (sort chems @ sort actions)])
     @ concat (map (\<lambda>action. [joinPlus (chems @ [action]), joinPlus (sort chems @ [action])])
                actions)
     @ (if chems = [] then [] else [joinPlus chems, joinPlus (sort chems)])"
  unfolding generateKeys_def Let_def fold_push_keys by simp





lemma sort_salt:
  "sort [''water'', ''salt''] = [''salt'', ''water'']"
  "sort [''water'', ''sand''] = [''sand'', ''water'']"
  by simp_all

lemma saltPhase_inputs:
  "currentExperiment (performExperimentAction ''stir''
      (addChemicalToExperiment solid (addChemicalToExperiment ''water'' st)))
     = currentExperiment st"
  "saltTested (performExperimentAction ''stir''
      (addChemicalToExperiment solid (addChemicalToExperiment ''water'' st)))
     = saltTested st"
  "sandTested (performExperimentAction ''stir''
      (addChemicalToExperiment solid (addChemicalToExperiment ''water'' st)))
     = sandTested st"
  "completedExperiments (performExperimentAction ''stir''
      (addChemicalToExperiment solid (addChemicalToExperiment ''water'' st)))
     = completedExperiments st"
  by (simp_all add: performExperimentAction_def addChemicalToExperiment_def Let_def)

lemma saltPhase_sets:
  assumes "addedChemicals st = []" and "experimentActions st = []" and "solid \<noteq> ''water''"
  shows "addedChemicals (performExperimentAction ''stir''
      (addChemicalToExperiment solid (addChemicalToExperiment ''water'' st)))
     = [''water'', solid]"
    and "experimentActions (performExperimentAction ''stir''
      (addChemicalToExperiment solid (addChemicalToExperiment ''water'' st)))
     = [''stir'']"
  using assms
  by (simp_all add: performExperimentAction_def addChemicalToExperiment_def Let_def)

lemma salt_table_match:
  assumes "tbl = [(''water+salt+stir'', r1), (''water+sand+stir'', r2),
                  (''water+salt'', r3), (''water+sand'', r4)]"
  shows "matchReaction tbl [''water'', ''salt''] [''stir''] = Some (''water+salt+stir'', r1)"
    and "matchReaction tbl [''water'', ''sand''] [''stir''] = Some (''water+sand+stir'', r2)"
  by (simp_all add: assms matchReaction_def generateKeys_ranked sort_salt)

lemma includes_salt_keys:
  "includesStr ''water+salt+stir'' ''salt''" "includesStr ''water+salt+stir'' ''stir''"
  "\<not> includesStr ''water+sand+stir'' ''salt''"
  "includesStr ''water+sand+stir'' ''sand''" "includesStr ''water+sand+stir'' ''stir''"
  by simp_all

lemma salt_phaseA:
  assumes "currentExperiment st = Some e" and "exp_id e = ''salt-dissolution''"
    and "reactions e = [(''water+salt+stir'', r1), (''water+sand+stir'', r2),
                        (''water+salt'', r3), (''water+sand'', r4)]"
    and "success r1"
    and "\<not> saltTested st" and "\<not> sandTested st"
    and "addedChemicals st = []" and "experimentActions st = []"
  shows "saltTested (saltPhase ''salt'' now st)"
    and "\<not> sandTested (saltPhase ''salt'' now st)"
    and "showResetPrompt (saltPhase ''salt'' now st)"
    and "currentExperiment (saltPhase ''salt'' now st) = Some e"
  using assms salt_table_match(1) [OF assms(3)]
  by (simp_all add: saltPhase_def runCallback_def checkExperimentReaction_def
        saltPhase_inputs saltPhase_sets saltDissolutionOutcome_def Let_def includes_salt_keys)

lemma salt_reset:
  assumes "currentExperiment st = Some e" and "exp_id e = ''salt-dissolution''"
    and "saltTested st" and "\<not> sandTested st"
  shows "placedApparatus (resetExperiment st) = []"
    and "addedChemicals (resetExperiment st) = []"
    and "experimentActions (resetExperiment st) = []"
    and "saltTested (resetExperiment st)"
    and "\<not> sandTested (resetExperiment st)"
    and "resetAfterSaltTest (resetExperiment st)"
    and "\<exists>e'. currentExperiment (resetExperiment st) = Some e' \<and> exp_id e' = exp_id e
            \<and> reactions e' = reactions e"
  using assms by (simp_all add: resetExperiment_def Let_def)

lemma salt_phaseB:
  assumes "currentExperiment st = Some e" and "exp_id e = ''salt-dissolution''"
    and "reactions e = [(''water+salt+stir'', r1), (''water+sand+stir'', r2),
                        (''water+salt'', r3), (''water+sand'', r4)]"
    and "success r2"
    and "saltTested st" and "\<not> sandTested st"
    and "addedChemicals st = []" and "experimentActions st = []"
  shows "saltTested (saltPhase ''sand'' now st)"
    and "sandTested (saltPhase ''sand'' now st)"
    and "\<not> showResetPrompt (saltPhase ''sand'' now st)"
    and "''salt-dissolution'' \<in> set (completedExperiments (saltPhase ''sand'' now st))"
  using assms salt_table_match(2) [OF assms(3)]
  by (auto simp: saltPhase_def runCallback_def checkExperimentReaction_def
        saltPhase_inputs saltPhase_sets saltDissolutionOutcome_def Let_def includes_salt_keys
        recordCompletion_def)

text \<open>
  Claim C7. In the salt-dissolution experiment, from a fresh attempt with neither flag
  set: completing phase A (water, salt, stir, the stir timer firing) sets \<open>saltTested\<close>
  and shows the reset prompt; \<open>resetExperiment\<close> then empties \<open>placedApparatus\<close>,
  \<open>addedChemicals\<close> and \<open>experimentActions\<close>, keeps \<open>saltTested\<close> and sets
  \<open>resetAfterSaltTest\<close>; completing phase B (water, sand, stir) right after that reset
  sets \<open>sandTested\<close>, leaves no reset prompt, and the experiment id is in
  \<open>completedExperiments\<close>.
\<close>

theorem salt_dissolution_two_phase:
  assumes "currentExperiment st = Some e" and "exp_id e = ''salt-dissolution''"
    and "reactions e = [(''water+salt+stir'', r1), (''water+sand+stir'', r2),
                        (''water+salt'', r3), (''water+sand'', r4)]"
    and "success r1" and "success r2"
    and "\<not> saltTested st" and "\<not> sandTested st"
    and "addedChemicals st = []" and "experimentActions st = []"
  shows "saltTested (saltPhase ''salt'' t1 st)
         \<and> \<not> sandTested (saltPhase ''salt'' t1 st)
         \<and> showResetPrompt (saltPhase ''salt'' t1 st)
         \<and> placedApparatus (resetExperiment (saltPhase ''salt'' t1 st)) = []
         \<and> addedChemicals (resetExperiment (saltPhase ''salt'' t1 st)) = []
         \<and> experimentActions (resetExperiment (saltPhase ''salt'' t1 st)) = []
         \<and> saltTested (resetExperiment (saltPhase ''salt'' t1 st))
         \<and> resetAfterSaltTest (resetExperiment (saltPhase ''salt'' t1 st))
         \<and> saltTested (saltPhase ''sand'' t2 (resetExperiment (saltPhase ''salt'' t1 st)))
         \<and> sandTested (saltPhase ''sand'' t2 (resetExperiment (saltPhase ''salt'' t1 st)))
         \<and> \<not> showResetPrompt (saltPhase ''sand'' t2 (resetExperiment (saltPhase ''salt'' t1 st)))
         \<and> ''salt-dissolution''
              \<in> set (completedExperiments
                      (saltPhase ''sand'' t2 (resetExperiment (saltPhase ''salt'' t1 st))))"
proof -
  let ?A = "saltPhase ''salt'' t1 st"
  let ?R = "resetExperiment ?A"
  note a = salt_phaseA [OF assms(1,2,3,4,6,7,8,9), of t1]
  note r = salt_reset [OF a(4) assms(2) a(1) a(2)]
  from r(7) obtain e' where e': "currentExperiment ?R = Some e'" "exp_id e' = exp_id e"
    "reactions e' = reactions e" by blast
  from e' assms have e2: "exp_id e' = ''salt-dissolution''"
    "reactions e' = [(''water+salt+stir'', r1), (''water+sand+stir'', r2),
                     (''water+salt'', r3), (''water+sand'', r4)]" by simp_all
  note b = salt_phaseB [OF e'(1) e2 assms(5) r(4) r(5) r(2) r(3), of t2]
  from a r b show ?thesis by simp
qed

theorem salt_dissolution_two_phase_witness:
  "currentExperiment saltBench = Some saltDissolution
   \<and> exp_id saltDissolution = ''salt-dissolution''
   \<and> map fst (reactions saltDissolution)
        = [''water+salt+stir'', ''water+sand+stir'', ''water+salt'', ''water+sand'']
   \<and> \<not> saltTested saltBench \<and> \<not> sandTested saltBench
   \<and> addedChemicals saltBench = [] \<and> experimentActions saltBench = []
   \<and> saltTested (saltPhase ''salt'' 0 saltBench)
   \<and> showResetPrompt (saltPhase ''salt'' 0 saltBench)
   \<and> addedChemicals (resetExperiment (saltPhase ''salt'' 0 saltBench)) = []
   \<and> saltTested (resetExperiment (saltPhase ''salt'' 0 saltBench))
   \<and> resetAfterSaltTest (resetExperiment (saltPhase ''salt'' 0 saltBench))
   \<and> sandTested (saltPhase ''sand'' 0 (resetExperiment (saltPhase ''salt'' 0 saltBench)))
   \<and> ''salt-dissolution''
        \<in> set (completedExperiments
                (saltPhase ''sand'' 0 (resetExperiment (saltPhase ''salt'' 0 saltBench))))"
proof -
  have c: "currentExperiment saltBench = Some saltDissolution"
    and f: "\<not> saltTested saltBench" "\<not> sandTested saltBench"
      "addedChemicals saltBench = []" "experimentActions saltBench = []"
    by (simp_all add: saltBench_def loadExperiment_def initialStore_def)
  have i: "exp_id saltDissolution = ''salt-dissolution''"
    by (simp add: saltDissolution_def)
  obtain r1 r2 r3 r4 where
    t: "reactions saltDissolution = [(''water+salt+stir'', r1), (''water+sand+stir'', r2),
                                      (''water+salt'', r3), (''water+sand'', r4)]"
    and s: "success r1" "success r2"
    by (simp add: saltDissolution_def)
  from salt_dissolution_two_phase [OF c i t s f, of 0 0] c i t f
  show ?thesis by simp
qed

section \<open>Drop-counted neutralization\<close>










section \<open>Heating\<close>


lemma addEffect_vessels: "vessels (addEffect ty i d now s) = vessels s"
  by (simp add: addEffect_def)











text \<open>
  The keying of the vessel map is an invariant: it holds in the initial state and is kept
  by fills, transfers, temperature updates and heating frames.
\<close>

lemma wellKeyed_iff:
  "wellKeyed st \<longleftrightarrow>
     distinct (map fst (vessels st))
     \<and> (\<forall>k v. map_of (vessels st) k = Some v \<longrightarrow> vessel_id v = k)"
proof -
  have "(\<forall>e \<in> set (vessels st). vessel_id (snd e) = fst e)
          \<longleftrightarrow> (\<forall>k v. map_of (vessels st) k = Some v \<longrightarrow> vessel_id v = k)"
    if d: "distinct (map fst (vessels st))"
  proof
    assume a: "\<forall>e \<in> set (vessels st). vessel_id (snd e) = fst e"
    show "\<forall>k v. map_of (vessels st) k = Some v \<longrightarrow> vessel_id v = k"
    proof (intro allI impI)
      fix k v assume "map_of (vessels st) k = Some v"
      then have "(k, v) \<in> set (vessels st)" by (rule map_of_SomeD)
      with a have "vessel_id (snd (k, v)) = fst (k, v)" by (rule bspec)
      then show "vessel_id v = k" by simp
    qed
  next
    assume a: "\<forall>k v. map_of (vessels st) k = Some v \<longrightarrow> vessel_id v = k"
    show "\<forall>e \<in> set (vessels st). vessel_id (snd e) = fst e"
    proof
      fix e assume "e \<in> set (vessels st)"
      then have "(fst e, snd e) \<in> set (vessels st)" by simp
      with d have "map_of (vessels st) (fst e) = Some (snd e)" by (rule map_of_is_SomeI)
      with a show "vessel_id (snd e) = fst e" by blast
    qed
  qed
  then show ?thesis by (auto simp: wellKeyed_def list_all_iff)
qed

lemma wellKeyed_update:
  assumes "wellKeyed st" and "vessel_id v = k" and "vessels st' = AList.update k v (vessels st)"
  shows "wellKeyed st'"
  using assms by (simp add: wellKeyed_iff distinct_update map_of_update)

lemma wellKeyed_initialStore: "wellKeyed (initialStore stored)"
  by (simp add: wellKeyed_def initialStore_def emptyVessel_def)

lemma wellKeyed_updateVesselTemperature:
  assumes "wellKeyed st"
  shows "wellKeyed (updateVesselTemperature i t st)"
proof (cases "map_of (vessels st) i")
  case None
  with assms show ?thesis by (simp add: updateVesselTemperature_def)
next
  case (Some u)
  with assms have "vessel_id (u\<lparr>temperature := t\<rparr>) = i" by (simp add: wellKeyed_iff)
  from wellKeyed_update [OF assms this] Some show ?thesis
    by (simp add: updateVesselTemperature_def)
qed

lemma wellKeyed_vessels_cong: "vessels st' = vessels st \<Longrightarrow> wellKeyed st' = wellKeyed st"
  by (simp add: wellKeyed_def)

lemma wellKeyed_coolStep: "wellKeyed st \<Longrightarrow> wellKeyed (coolStep r d w st)"
  by (simp add: coolStep_def wellKeyed_updateVesselTemperature)

lemma wellKeyed_heatStep: "wellKeyed (fst p) \<Longrightarrow> wellKeyed (fst (heatStep E d now w p))"
  by (simp add: heatStep_def Let_def wellKeyed_coolStep wellKeyed_updateVesselTemperature
        wellKeyed_vessels_cong [of "addEffect _ _ _ _ _"] addEffect_vessels)

lemma wellKeyed_heatingFrame:
  assumes "wellKeyed (fst p)"
  shows "wellKeyed (fst (heatingFrame delta now p))"
proof -
  have c: "wellKeyed s \<Longrightarrow> wellKeyed (fold (coolStep 5 delta) ws s)" for ws s
    by (induction ws arbitrary: s) (simp_all add: wellKeyed_coolStep)
  have h: "wellKeyed (fst q) \<Longrightarrow> wellKeyed (fst (fold (heatStep E delta now) ws q))" for ws q E
    by (induction ws arbitrary: q) (simp_all add: wellKeyed_heatStep)
  from assms c h show ?thesis by (simp add: heatingFrame_def Let_def)
qed

lemma wellKeyed_fillVessel:
  assumes "wellKeyed st"
  shows "wellKeyed (fillVessel i c x st)"
proof (cases "map_of (vessels st) i")
  case None
  with assms show ?thesis by (simp add: fillVessel_def)
next
  case (Some u)
  with assms have "vessel_id u = i" by (simp add: wellKeyed_iff)
  with assms Some show ?thesis
    by (simp add: fillVessel_def Let_def wellKeyed_iff distinct_update map_of_update
          scheduleReaction_fields del: map_of_eq_Some_iff)
qed

lemma wellKeyed_transferLiquid:
  assumes "wellKeyed st"
  shows "wellKeyed (transferLiquid a b x st)"
proof (cases "map_of (vessels st) a")
  case None
  with assms show ?thesis by (simp add: transferLiquid_def)
next
  case sa: (Some s)
  show ?thesis
  proof (cases "map_of (vessels st) b")
    case None
    with assms sa show ?thesis by (simp add: transferLiquid_def)
  next
    case sb: (Some t)
    from assms sa sb have "vessel_id s = a" "vessel_id t = b" by (simp_all add: wellKeyed_iff)
    with assms sa sb show ?thesis
      by (simp add: transferLiquid_def Let_def wellKeyed_iff distinct_update map_of_update
            scheduleReaction_fields del: map_of_eq_Some_iff)
  qed
qed



end
